theory Spec2Isabelle
  imports Main "HOL-Library.Sublist"
begin

section \<open>Strings\<close>

text \<open>
  Python strings are modelled as \<open>string\<close>: lists of 8-bit characters, a character
  outside ASCII being the bytes of its UTF-8 encoding.

  \<open>str.lower\<close>: in a string of ASCII characters the letters \<open>A\<close> to \<open>Z\<close> become
  \<open>a\<close> to \<open>z\<close>. For a string with other characters the result is that of the Unicode
  case mapping, a table outside this repository: it is the parameter \<open>unicode_lower\<close>.
\<close>

definition lower_char :: "char \<Rightarrow> char" where
  "lower_char c =
     (case map_of (zip ''ABCDEFGHIJKLMNOPQRSTUVWXYZ'' ''abcdefghijklmnopqrstuvwxyz'') c of
        Some d \<Rightarrow> d
      | None \<Rightarrow> c)"

definition is_ascii :: "char \<Rightarrow> bool" where
  "is_ascii c = (\<not> digit7 c)"

definition lower :: "(string \<Rightarrow> string) \<Rightarrow> string \<Rightarrow> string" where
  "lower unicode_lower s = (if list_all is_ascii s then map lower_char s else unicode_lower s)"

text \<open>\<open>s.startswith((p1, p2, ...))\<close>: some element of the tuple is a prefix of \<open>s\<close>.\<close>

definition startswith_any :: "string \<Rightarrow> string list \<Rightarrow> bool" where
  "startswith_any s ps = list_ex (\<lambda>p. prefix p s) ps"

text \<open>\<open>d in s\<close> on strings: \<open>d\<close> occurs in \<open>s\<close> as a contiguous substring.\<close>

fun str_contains :: "string \<Rightarrow> string \<Rightarrow> bool" where
  "str_contains [] d = (d = [])"
| "str_contains (c # cs) d = (prefix d (c # cs) \<or> str_contains cs d)"

text \<open>\<open>sep.join(xs)\<close>.\<close>

fun join :: "string \<Rightarrow> string list \<Rightarrow> string" where
  "join sep [] = []"
| "join sep [x] = x"
| "join sep (x # y # ys) = x @ sep @ join sep (y # ys)"

text \<open>\<open>s.split(sep)\<close> for a one-character separator: never returns the empty list.\<close>

fun split_on :: "char \<Rightarrow> string \<Rightarrow> string list" where
  "split_on sep [] = [[]]"
| "split_on sep (c # cs) =
     (if c = sep then [] # split_on sep cs
      else (case split_on sep cs of
              [] \<Rightarrow> [[c]]
            | w # ws \<Rightarrow> (c # w) # ws))"

text \<open>
  \<open>s.rfind(ch)\<close>: the highest index at which \<open>ch\<close> occurs, or \<open>-1\<close>.
\<close>

fun rfind :: "string \<Rightarrow> char \<Rightarrow> int" where
  "rfind [] ch = -1"
| "rfind (c # cs) ch =
     (let r = rfind cs ch in
      if r \<noteq> -1 then r + 1 else if c = ch then 0 else -1)"

text \<open>
  \<open>os.path.splitext\<close> (the POSIX flavour, \<open>genericpath._splitext\<close> with separator
  \<open>/\<close> and extension separator \<open>.\<close>): the extension starts at the last dot of the
  last path component, unless that component consists of leading dots only up to there.
\<close>

definition splitext :: "string \<Rightarrow> string \<times> string" where
  "splitext p =
     (let sepIndex = rfind p (CHR ''/'');
          dotIndex = rfind p (CHR ''.'')
      in if dotIndex > sepIndex \<and>
            list_ex (\<lambda>c. c \<noteq> CHR ''.'')
              (take (nat (dotIndex - (sepIndex + 1))) (drop (nat (sepIndex + 1)) p))
         then (take (nat dotIndex) p, drop (nat dotIndex) p)
         else (p, []))"

text \<open>
  Truthiness of an \<open>Optional[str]\<close>: \<open>None\<close> and the empty string are false.
  \<open>x or d\<close> is \<open>x\<close> when \<open>x\<close> is truthy and \<open>d\<close> otherwise.
\<close>

fun truthy :: "string option \<Rightarrow> bool" where
  "truthy None = False"
| "truthy (Some s) = (s \<noteq> [])"

fun or_else :: "string option \<Rightarrow> string \<Rightarrow> string" where
  "or_else None d = d"
| "or_else (Some s) d = (if s = [] then d else s)"

section \<open>Integers as text\<close>

text \<open>
  \<open>int(s)\<close> on a string, for the ASCII syntax: optional surrounding whitespace, an
  optional sign, then decimal digits, single underscores allowed between digits, and at
  most \<open>max_str_digits\<close> digits (the interpreter's default limit for the conversion).
  \<open>None\<close> stands for \<open>ValueError\<close>. Unicode digits and spaces are not modelled: every
  element of \<open>QUALITY_OPTIONS\<close> is ASCII.
\<close>

definition digit_val :: "char \<Rightarrow> nat option" where
  "digit_val c = map_of (zip ''0123456789'' [0, 1, 2, 3, 4, 5, 6, 7, 8, 9]) c"

definition is_space :: "char \<Rightarrow> bool" where
  "is_space c = (c \<in> set [CHR '' '', CHR 0x09, CHR 0x0A, CHR 0x0B, CHR 0x0C, CHR 0x0D])"

definition strip :: "string \<Rightarrow> string" where
  "strip s = rev (dropWhile is_space (rev (dropWhile is_space s)))"

text \<open>
  \<open>parse_digits acc prev_digit s\<close>: \<open>prev_digit\<close> tells whether the character just
  read was a digit (an underscore is only legal between two digits).
\<close>

fun parse_digits :: "nat \<Rightarrow> bool \<Rightarrow> string \<Rightarrow> nat option" where
  "parse_digits acc prev [] = (if prev then Some acc else None)"
| "parse_digits acc prev (c # cs) =
     (if c = CHR ''_'' then (if prev then parse_digits acc False cs else None)
      else (case digit_val c of
              None \<Rightarrow> None
            | Some d \<Rightarrow> parse_digits (10 * acc + d) True cs))"

definition max_str_digits :: nat where
  "max_str_digits = 4300"

definition py_int :: "string \<Rightarrow> int option" where
  "py_int s =
     (if length (filter (\<lambda>c. digit_val c \<noteq> None) s) > max_str_digits then None
      else
        (case strip s of
           [] \<Rightarrow> None
         | c # cs \<Rightarrow>
             if c = CHR ''-'' then map_option (\<lambda>n. - int n) (parse_digits 0 False cs)
             else if c = CHR ''+'' then map_option int (parse_digits 0 False cs)
             else map_option int (parse_digits 0 False (c # cs))))"

text \<open>\<open>str(n)\<close> of an integer, as an f-string interpolates it: decimal, no padding.\<close>

definition digit_char :: "nat \<Rightarrow> char" where
  "digit_char d = ''0123456789'' ! d"

function show_nat :: "nat \<Rightarrow> string" where
  "show_nat n = (if n < 10 then [digit_char n] else show_nat (n div 10) @ [digit_char (n mod 10)])"
  by pat_completeness auto
termination
  by (relation "measure id") auto

definition show_int :: "int \<Rightarrow> string" where
  "show_int i = (if i < 0 then CHR ''-'' # show_nat (nat (- i)) else show_nat (nat i))"

section \<open>Paths (pathlib, POSIX flavour)\<close>

text \<open>
  A \<open>pathlib.PurePosixPath\<close> is a root (\<open>''''\<close>, \<open>''/''\<close> or \<open>''//''\<close>) and the list of
  its components. Parsing collapses repeated slashes and drops single-dot components;
  \<open>..\<close> is kept. Exactly two leading slashes are kept as the root \<open>//\<close>.
\<close>

record ppath =
  root :: string
  parts :: "string list"

definition Path :: "string \<Rightarrow> ppath" where
  "Path s =
     \<lparr> root = (if prefix ''//'' s \<and> \<not> prefix ''///'' s then ''//''
               else if prefix ''/'' s then ''/'' else ''''),
       parts = filter (\<lambda>c. c \<noteq> '''' \<and> c \<noteq> ''.'') (split_on (CHR ''/'') s) \<rparr>"

text \<open>\<open>str(p)\<close>: the empty relative path prints as a single dot.\<close>

definition str_path :: "ppath \<Rightarrow> string" where
  "str_path p =
     (if root p = '''' \<and> parts p = [] then ''.'' else root p @ join ''/'' (parts p))"

text \<open>\<open>p / q\<close>: an absolute right operand replaces the left one.\<close>

definition path_join :: "ppath \<Rightarrow> ppath \<Rightarrow> ppath" where
  "path_join p q =
     (if root q \<noteq> '''' then q else \<lparr> root = root p, parts = parts p @ parts q \<rparr>)"

definition path_div :: "ppath \<Rightarrow> string \<Rightarrow> ppath" where
  "path_div p s = path_join p (Path s)"

text \<open>\<open>p.parent\<close>: the path without its last component; a path with no component is its own parent.\<close>

definition parent :: "ppath \<Rightarrow> ppath" where
  "parent p = p\<lparr> parts := butlast (parts p) \<rparr>"

section \<open>Exceptions\<close>

text \<open>
  \<open>OSError c\<close> is the exception an operating-system call raises for the error number
  \<open>c\<close>; Python raises it as the subclass that belongs to \<open>c\<close> (\<open>FileNotFoundError\<close>
  for \<open>ENOENT\<close>, \<open>FileExistsError\<close> for \<open>EEXIST\<close>, \<open>NotADirectoryError\<close> for
  \<open>ENOTDIR\<close>, \<open>PermissionError\<close> for \<open>EACCES\<close>). \<open>FileNotFoundError m\<close> is the
  \<open>FileNotFoundError\<close> the program raises itself, with its message.
\<close>

datatype errno =
    ENOENT
  | ENOTDIR
  | EEXIST
  | EACCES
  | ENAMETOOLONG
  | ELOOP
  | EROFS
  | ENOSPC
  | Errno nat

datatype exn =
    ValueError string
  | FileNotFoundError string
  | OSError errno
  | Exception string

section \<open>The file system\<close>

text \<open>
  The file system is a tree: a location is the list of names from the root directory,
  and the state maps each existing location to the kind of its node. The root directory
  always exists. What the operating system refuses for reasons outside the tree
  (permissions, link loops, a read-only or full file system, input/output errors) is
  given by the environment: \<open>lookup_fault l c\<close> is the error of looking the name \<open>c\<close> up
  in the directory \<open>l\<close>, \<open>create_fault l\<close> the error of creating a directory at the free
  location \<open>l\<close>, \<open>getcwd_fault\<close> the error of asking for the working directory. The
  limits are those of Linux: 255 bytes for a name, 4095 for a path. Symbolic links are
  not part of the tree, and nothing else changes the file system while the program runs.
\<close>

datatype node = File | Dir

type_synonym loc = "string list"
type_synonym filesys = "loc \<rightharpoonup> node"

record env =
  fs :: filesys
  cwd :: loc
  lookup_fault :: "loc \<Rightarrow> string \<Rightarrow> errno option"
  create_fault :: "loc \<Rightarrow> errno option"
  getcwd_fault :: "errno option"
  unicode_lower :: "string \<Rightarrow> string"

definition node_at :: "filesys \<Rightarrow> loc \<Rightarrow> node option" where
  "node_at f l = (if l = [] then Some Dir else f l)"

text \<open>
  What a system call does with a path name before resolving it: the Python wrapper
  refuses an embedded null byte with \<open>ValueError\<close>, the kernel a path that is too long.
\<close>

definition path_error :: "string \<Rightarrow> exn option" where
  "path_error s =
     (if CHR 0x00 \<in> set s then Some (ValueError ''embedded null byte'')
      else if length s > 4095 then Some (OSError ENAMETOOLONG)
      else None)"

text \<open>One step of path resolution from location \<open>l\<close> along the component \<open>c\<close>.\<close>

definition special :: "string \<Rightarrow> bool" where
  "special c = (c = '''' \<or> c = ''.'' \<or> c = ''..'')"

definition step :: "loc \<Rightarrow> string \<Rightarrow> loc" where
  "step l c = (if c = ''..'' then butlast l else if c = '''' \<or> c = ''.'' then l else l @ [c])"

definition lookup :: "env \<Rightarrow> loc \<Rightarrow> string \<Rightarrow> errno option" where
  "lookup e l c = (if length c > 255 then Some ENAMETOOLONG else lookup_fault e l c)"

text \<open>
  Path resolution: every location a component is looked up in must be a directory, and
  the lookup must not be refused. The location reached by the last component is
  returned without being looked at.
\<close>

fun walk :: "env \<Rightarrow> loc \<Rightarrow> string list \<Rightarrow> errno + loc" where
  "walk e l [] = Inr l"
| "walk e l (c # cs) =
     (case node_at (fs e) l of
        None \<Rightarrow> Inl ENOENT
      | Some File \<Rightarrow> Inl ENOTDIR
      | Some Dir \<Rightarrow>
          (case lookup e l c of
             Some er \<Rightarrow> Inl er
           | None \<Rightarrow> walk e (step l c) cs))"

definition stat :: "env \<Rightarrow> loc \<Rightarrow> string list \<Rightarrow> errno + node" where
  "stat e l cs =
     (case walk e l cs of
        Inl er \<Rightarrow> Inl er
      | Inr t \<Rightarrow> (case node_at (fs e) t of None \<Rightarrow> Inl ENOENT | Some k \<Rightarrow> Inr k))"

text \<open>
  \<open>os.path.isfile(s)\<close> on a raw string: \<open>os.stat\<close> succeeds and reports a regular file;
  every \<open>OSError\<close> and \<open>ValueError\<close> of \<open>os.stat\<close> gives \<open>False\<close>. The empty path name
  does not resolve.
\<close>

definition isfile :: "env \<Rightarrow> string \<Rightarrow> bool" where
  "isfile e s =
     (s \<noteq> [] \<and> path_error s = None \<and>
      stat e (if prefix ''/'' s then [] else cwd e) (split_on (CHR ''/'') s) = Inr File)"

text \<open>
  The system calls below receive \<open>str(p)\<close> of a \<open>ppath\<close>, whose components are the
  parts of \<open>p\<close>; a relative path is resolved from the working directory.
  \<open>Path.is_dir\<close> is \<open>os.path.isdir\<close> (Python 3.13): every error of \<open>os.stat\<close> gives
  \<open>False\<close>.
\<close>

definition start :: "env \<Rightarrow> ppath \<Rightarrow> loc" where
  "start e p = (if root p = '''' then cwd e else [])"

definition is_dir :: "env \<Rightarrow> ppath \<Rightarrow> bool" where
  "is_dir e p = (path_error (str_path p) = None \<and> stat e (start e p) (parts p) = Inr Dir)"

text \<open>
  \<open>os.getcwd()\<close>: fails when the working directory has been removed.
\<close>

definition os_getcwd :: "env \<Rightarrow> exn + loc" where
  "os_getcwd e =
     (case node_at (fs e) (cwd e) of
        Some Dir \<Rightarrow>
          (case getcwd_fault e of
             Some er \<Rightarrow> Inl (OSError er)
           | None \<Rightarrow> Inr (cwd e))
      | Some File \<Rightarrow> Inl (OSError ENOENT)
      | None \<Rightarrow> Inl (OSError ENOENT))"

text \<open>
  \<open>os.mkdir(p)\<close>: the path resolves up to its last component, which must be a name
  that is free in its directory; an existing entry is reported before the creation is
  attempted. On failure the file system is as before.
\<close>

definition os_mkdir :: "env \<Rightarrow> ppath \<Rightarrow> exn + env" where
  "os_mkdir e p =
     (case path_error (str_path p) of
        Some ex \<Rightarrow> Inl ex
      | None \<Rightarrow>
          if parts p = [] then
            (case node_at (fs e) (start e p) of
               None \<Rightarrow> Inl (OSError ENOENT)
             | Some k \<Rightarrow> Inl (OSError EEXIST))
          else
            (case walk e (start e p) (parts p) of
               Inl er \<Rightarrow> Inl (OSError er)
             | Inr t \<Rightarrow>
                 if special (last (parts p)) then Inl (OSError EEXIST)
                 else (case node_at (fs e) t of
                         Some k \<Rightarrow> Inl (OSError EEXIST)
                       | None \<Rightarrow>
                           (case create_fault e t of
                              Some er \<Rightarrow> Inl (OSError er)
                            | None \<Rightarrow> Inr (e\<lparr> fs := (fs e)(t \<mapsto> Dir) \<rparr>)))))"

text \<open>
  \<open>Path.mkdir(parents=False, exist_ok=True)\<close>: \<open>FileNotFoundError\<close> is raised again;
  any other \<open>OSError\<close> is swallowed when the path is a directory; an exception that is
  no \<open>OSError\<close> passes through.
\<close>

definition mkdir_exist_ok :: "env \<Rightarrow> ppath \<Rightarrow> exn + env" where
  "mkdir_exist_ok e p =
     (case os_mkdir e p of
        Inr e' \<Rightarrow> Inr e'
      | Inl (OSError er) \<Rightarrow>
          if er = ENOENT then Inl (OSError ENOENT)
          else if is_dir e p then Inr e
          else Inl (OSError er)
      | Inl ex \<Rightarrow> Inl ex)"

text \<open>
  \<open>Path.mkdir(parents=True, exist_ok=True)\<close>: on \<open>FileNotFoundError\<close> the parent is
  made in the same way first and the directory itself is then made without
  \<open>parents\<close>. The result is the file system the call leaves behind, with the
  directories made so far also when it raises, and the exception raised, if any.
\<close>

function mkdir_parents :: "env \<Rightarrow> ppath \<Rightarrow> env \<times> exn option" where
  "mkdir_parents e p =
     (case os_mkdir e p of
        Inr e' \<Rightarrow> (e', None)
      | Inl (OSError er) \<Rightarrow>
          if er = ENOENT then
            (if parts p = [] then (e, Some (OSError ENOENT))
             else (case mkdir_parents e (parent p) of
                     (e1, Some ex) \<Rightarrow> (e1, Some ex)
                   | (e1, None) \<Rightarrow>
                       (case mkdir_exist_ok e1 p of
                          Inl ex \<Rightarrow> (e1, Some ex)
                        | Inr e2 \<Rightarrow> (e2, None))))
          else if is_dir e p then (e, None)
          else (e, Some (OSError er))
      | Inl ex \<Rightarrow> (e, Some ex))"
  by pat_completeness auto
termination
  by (relation "measure (\<lambda>(e, p). length (parts p))") (auto simp: parent_def)

section \<open>The downloader\<close>

subsection \<open>Class constants\<close>

definition PLATFORMS :: "(string \<times> string list) list" where
  "PLATFORMS =
     [(''youtube'', [''youtube.com'', ''youtu.be'']),
      (''instagram'', [''instagram.com'']),
      (''twitter'', [''twitter.com'', ''x.com'']),
      (''x'', [''twitter.com'', ''x.com''])]"

definition QUALITY_OPTIONS :: "string list" where
  "QUALITY_OPTIONS = [''360'', ''480'', ''720'', ''1080'', ''best'']"

subsection \<open>Constructor arguments and object state\<close>

record args =
  arg_platform :: string
  arg_link :: string
  arg_quality :: "string option"
  arg_output_dir :: "string option"
  arg_audio_only :: bool
  arg_filename :: "string option"
  arg_cookies :: "string option"
  arg_format :: "string option"

text \<open>A progress hook is a callable; only its identity matters here.\<close>

datatype hook = DefaultProgressHook | CustomProgressHook nat

record VideoDownloader =
  platform :: string
  link :: string
  quality :: string
  output_dir :: ppath
  audio_only :: bool
  filename :: "string option"
  cookies :: "string option"
  format :: "string option"
  custom_progress_hook :: "hook option"

subsection \<open>Normalisation and validation\<close>

definition normalize_platform :: "env \<Rightarrow> string \<Rightarrow> string" where
  "normalize_platform e p =
     (let platform_lower = lower (unicode_lower e) p in
      if platform_lower = ''x'' then ''twitter'' else platform_lower)"

text \<open>
  \<open>Path.cwd()\<close> is the absolute path \<open>os.getcwd()\<close> returns, and raises what it
  raises.
\<close>

definition Path_cwd :: "env \<Rightarrow> exn + ppath" where
  "Path_cwd e =
     (case os_getcwd e of
        Inl ex \<Rightarrow> Inl ex
      | Inr l \<Rightarrow> Inr \<lparr> root = ''/'', parts = l \<rparr>)"

text \<open>
  The assignments of \<open>__init__\<close> before validation; the only one that can raise is
  that of the output directory, when none is given. The attribute
  \<open>_custom_progress_hook\<close> is not set by the constructor.
\<close>

definition init_fields :: "env \<Rightarrow> args \<Rightarrow> exn + VideoDownloader" where
  "init_fields e a =
     (case (if truthy (arg_output_dir a) then Inr (Path (the (arg_output_dir a)))
            else Path_cwd e) of
        Inl ex \<Rightarrow> Inl ex
      | Inr dir \<Rightarrow>
          Inr \<lparr> platform = normalize_platform e (arg_platform a),
                link = arg_link a,
                quality = or_else (arg_quality a) ''best'',
                output_dir = dir,
                audio_only = arg_audio_only a,
                filename = arg_filename a,
                cookies = arg_cookies a,
                format = arg_format a,
                custom_progress_hook = None \<rparr>)"

text \<open>
  \<open>_validate_inputs\<close> returns the lines it printed together with either the exception
  it raised or \<open>()\<close>.
\<close>

definition validate_inputs :: "env \<Rightarrow> VideoDownloader \<Rightarrow> string list \<times> (exn + unit)" where
  "validate_inputs e d =
     (case map_of PLATFORMS (platform d) of
        None \<Rightarrow>
          ([], Inl (ValueError (''Invalid platform '' @ [CHR 0x27] @ platform d @ [CHR 0x27]
                  @ ''. Supported platforms: ''
                  @ join '', '' (filter (\<lambda>p. p \<noteq> ''x'') (map fst PLATFORMS)))))
      | Some platform_domains \<Rightarrow>
          if \<not> startswith_any (link d) [''http://'', ''https://'']
          then ([], Inl (ValueError (''Invalid URL format: '' @ link d)))
          else
            let url_lower = lower (unicode_lower e) (link d);
                out = (if \<not> list_ex (\<lambda>domain. str_contains url_lower domain) platform_domains
                       then [''Warning: URL '' @ [CHR 0x27] @ link d @ [CHR 0x27]
                             @ '' may not match platform '' @ [CHR 0x27] @ platform d @ [CHR 0x27]]
                       else [])
            in if quality d \<notin> set QUALITY_OPTIONS
               then (out, Inl (ValueError (''Invalid quality '' @ [CHR 0x27] @ quality d @ [CHR 0x27]
                       @ ''. Supported qualities: '' @ join '', '' QUALITY_OPTIONS)))
               else if truthy (cookies d) \<and> \<not> isfile e (the (cookies d))
               then (out, Inl (FileNotFoundError (''Cookies file not found: '' @ the (cookies d))))
               else (out, Inr ()))"

text \<open>
  \<open>VideoDownloader.__init__\<close>: the lines printed, the file system the call leaves
  behind, and either the exception raised or the object.
\<close>

definition VideoDownloader_init :: "env \<Rightarrow> args \<Rightarrow> string list \<times> env \<times> (exn + VideoDownloader)" where
  "VideoDownloader_init e a =
     (case init_fields e a of
        Inl ex \<Rightarrow> ([], e, Inl ex)
      | Inr d \<Rightarrow>
          (case validate_inputs e d of
             (out, Inl ex) \<Rightarrow> (out, e, Inl ex)
           | (out, Inr u) \<Rightarrow>
               (case mkdir_parents e (output_dir d) of
                  (e', Some ex) \<Rightarrow> (out, e', Inl ex)
                | (e', None) \<Rightarrow> (out, e', Inr d))))"

subsection \<open>Options for the library\<close>

definition get_quality_format_selector :: "VideoDownloader \<Rightarrow> string" where
  "get_quality_format_selector d =
     (if audio_only d then ''bestaudio/best''
      else if quality d = ''best'' then ''bestvideo+bestaudio/best''
      else (case py_int (quality d) of
              None \<Rightarrow> ''bestvideo+bestaudio/best''
            | Some target_height \<Rightarrow>
                ''bestvideo[height<='' @ show_int target_height @ '']+bestaudio/best[height<=''
                  @ show_int target_height @ '']/best''))"

definition get_output_template :: "VideoDownloader \<Rightarrow> string" where
  "get_output_template d =
     (if truthy (filename d) then
        let base_name = fst (splitext (the (filename d)));
            template = (if audio_only d then base_name @ ''.%(ext)s'' else base_name @ ''.%(ext)s'')
        in str_path (path_div (output_dir d) template)
      else str_path (path_div (output_dir d) ''%(title)s.%(ext)s''))"

text \<open>
  The options dictionary maps option names to values; a post-processor is itself a
  dictionary of strings, kept as an association list in insertion order.
\<close>

datatype ydl_value =
    Str string
  | Bool bool
  | Hooks "hook list"
  | Dicts "(string \<times> string) list list"

definition get_ydl_opts :: "VideoDownloader \<Rightarrow> (string \<rightharpoonup> ydl_value)" where
  "get_ydl_opts d =
     (let progress_hook = (case custom_progress_hook d of Some h \<Rightarrow> h | None \<Rightarrow> DefaultProgressHook);
          opts = [''format'' \<mapsto> Str (get_quality_format_selector d),
                  ''outtmpl'' \<mapsto> Str (get_output_template d),
                  ''quiet'' \<mapsto> Bool False,
                  ''no_warnings'' \<mapsto> Bool False,
                  ''progress_hooks'' \<mapsto> Hooks [progress_hook]];
          opts = (if truthy (cookies d) then opts(''cookiefile'' \<mapsto> Str (the (cookies d))) else opts)
      in if audio_only d then
           let audio_codec = or_else (format d) ''mp3'';
               opts = opts(''postprocessors'' \<mapsto>
                        Dicts [[(''key'', ''FFmpegExtractAudio''),
                                (''preferredcodec'', audio_codec),
                                (''preferredquality'', ''192'')]])
           in if \<not> truthy (filename d)
              then opts(''outtmpl'' \<mapsto> Str (str_path (path_div (output_dir d) ''%(title)s.%(ext)s'')))
              else opts
         else if truthy (format d) then opts(''merge_output_format'' \<mapsto> Str (the (format d)))
         else opts)"

subsection \<open>Download\<close>

text \<open>
  What the library does during one \<open>download\<close> call: the import fails; or
  \<open>extract_info\<close> and \<open>download\<close> succeed, giving the metadata dictionary and the
  file name \<open>prepare_filename\<close> predicts; or one of them raises.
\<close>

datatype ydl_run =
    NotInstalled
  | Downloaded "string \<rightharpoonup> string" string
  | DownloadError string
  | ExtractorError string
  | OtherError exn

datatype 'a outcome = Return 'a | SystemExit nat | Raise exn

text \<open>
  \<open>p.absolute()\<close>: a relative path is anchored at the working directory, which
  \<open>os.getcwd()\<close> has to find.
\<close>

definition absolute :: "env \<Rightarrow> ppath \<Rightarrow> exn + ppath" where
  "absolute e p =
     (if root p \<noteq> '''' then Inr p
      else (case Path_cwd e of
              Inl ex \<Rightarrow> Inl ex
            | Inr c \<Rightarrow> Inr (path_join c p)))"

text \<open>The final file path, from the metadata \<open>info\<close> and the predicted file name.\<close>

definition final_path :: "env \<Rightarrow> VideoDownloader \<Rightarrow> (string \<rightharpoonup> string) \<Rightarrow> string \<Rightarrow> exn + ppath" where
  "final_path e d info prepared =
     (if truthy (filename d) then
        let base_name = fst (splitext (the (filename d)));
            ext = (if audio_only d then or_else (format d) ''mp3''
                   else if truthy (format d) then the (format d)
                   else (case info ''ext'' of None \<Rightarrow> ''mp4'' | Some x \<Rightarrow> x));
            final_filename = base_name @ ''.'' @ ext
        in absolute e (path_div (output_dir d) final_filename)
      else
        let final_filename = prepared in
        if audio_only d then
          let base = fst (splitext final_filename);
              ext = or_else (format d) ''mp3''
          in absolute e (Path (base @ ''.'' @ ext))
        else if truthy (format d) then
          let base = fst (splitext final_filename)
          in absolute e (Path (base @ ''.'' @ the (format d)))
        else absolute e (Path final_filename))"

text \<open>
  The handler \<open>except Exception\<close> of \<open>download\<close>: exit with status 1 in interactive
  mode, raise the exception again otherwise.
\<close>

definition unexpected :: "bool \<Rightarrow> exn \<Rightarrow> string outcome" where
  "unexpected suppress_output ex = (if \<not> suppress_output then SystemExit 1 else Raise ex)"

text \<open>
  In interactive mode \<open>download\<close> prints the absolute output directory before it uses
  the library, outside the \<open>try\<close> block: what \<open>absolute\<close> raises there leaves
  \<open>download\<close> as it is. Console output itself is not part of the result.
\<close>

definition announce :: "env \<Rightarrow> VideoDownloader \<Rightarrow> bool \<Rightarrow> exn option" where
  "announce e d suppress_output =
     (if suppress_output then None
      else (case absolute e (output_dir d) of
              Inl ex \<Rightarrow> Some ex
            | Inr shown \<Rightarrow> None))"

text \<open>The \<open>try\<close> block of \<open>download\<close> with its handlers.\<close>

definition attempt :: "env \<Rightarrow> VideoDownloader \<Rightarrow> bool \<Rightarrow> ydl_run \<Rightarrow> string outcome" where
  "attempt e d suppress_output run =
     (case run of
        NotInstalled \<Rightarrow> SystemExit 1
      | Downloaded info prepared \<Rightarrow>
          (case final_path e d info prepared of
             Inl ex \<Rightarrow> unexpected suppress_output ex
           | Inr p \<Rightarrow> Return (str_path p))
      | DownloadError msg \<Rightarrow>
          if \<not> suppress_output then SystemExit 1
          else Raise (Exception (''Download error: '' @ msg))
      | ExtractorError msg \<Rightarrow>
          if \<not> suppress_output then SystemExit 1
          else Raise (Exception (''Extraction error: '' @ msg))
      | OtherError ex \<Rightarrow> unexpected suppress_output ex)"

text \<open>\<open>download\<close>: the import, the announcement, the attempt.\<close>

definition download :: "env \<Rightarrow> VideoDownloader \<Rightarrow> bool \<Rightarrow> ydl_run \<Rightarrow> string outcome" where
  "download e d suppress_output run =
     (case run of
        NotInstalled \<Rightarrow> SystemExit 1
      | _ \<Rightarrow>
          (case announce e d suppress_output of
             Some ex \<Rightarrow> Raise ex
           | None \<Rightarrow> attempt e d suppress_output run))"

section \<open>Example inputs\<close>

text \<open>The end-to-end scenario of the specification.\<close>

definition scenario_args :: args where
  "scenario_args =
     \<lparr> arg_platform = ''youtube'',
       arg_link = ''https://youtube.com/watch?v=abc'',
       arg_quality = Some ''best'',
       arg_output_dir = Some ''./out'',
       arg_audio_only = False,
       arg_filename = None,
       arg_cookies = None,
       arg_format = None \<rparr>"

text \<open>
  A file system holding the directory \<open>/home\<close> and the regular file
  \<open>/home/notes.txt\<close>, with \<open>/home\<close> as the working directory, where the operating
  system refuses nothing.
\<close>

definition home_env :: env where
  "home_env =
     \<lparr> fs = [[''home''] \<mapsto> Dir, [''home'', ''notes.txt''] \<mapsto> File],
       cwd = [''home''],
       lookup_fault = (\<lambda>l c. None),
       create_fault = (\<lambda>l. None),
       getcwd_fault = None,
       unicode_lower = (\<lambda>s. s) \<rparr>"

text \<open>The same, after the directory \<open>/home/out\<close> has been made.\<close>

definition home_out_env :: env where
  "home_out_env = home_env\<lparr> fs := (fs home_env)([''home'', ''out''] \<mapsto> Dir) \<rparr>"

text \<open>The object that the scenario constructs.\<close>

definition scenario_object :: VideoDownloader where
  "scenario_object =
     \<lparr> platform = ''youtube'',
       link = ''https://youtube.com/watch?v=abc'',
       quality = ''best'',
       output_dir = \<lparr> root = '''', parts = [''out''] \<rparr>,
       audio_only = False,
       filename = None,
       cookies = None,
       format = None,
       custom_progress_hook = None \<rparr>"

text \<open>The same file system, seen from a working directory that has been removed.\<close>

definition gone_env :: env where
  "gone_env = home_env\<lparr> cwd := [''home'', ''gone''] \<rparr>"

section \<open>Relating file-system states\<close>



section \<open>Basic facts\<close>

declare mkdir_parents.simps [simp del]
declare show_nat.simps [simp del]

lemma init_success:
  assumes "VideoDownloader_init e a = (out, e', Inr d)"
  shows "init_fields e a = Inr d"
    and "validate_inputs e d = (out, Inr ())"
    and "mkdir_parents e (output_dir d) = (e', None)"
  using assms
  by (auto simp: VideoDownloader_init_def split: prod.splits sum.splits option.splits)

lemma init_ok:
  assumes "init_fields e a = Inr d"
    and "validate_inputs e d = (out, Inr ())"
    and "mkdir_parents e (output_dir d) = (e', None)"
  shows "VideoDownloader_init e a = (out, e', Inr d)"
  using assms by (simp add: VideoDownloader_init_def)

lemma init_fields_Inr:
  assumes "init_fields e a = Inr d"
  shows "platform d = normalize_platform e (arg_platform a)"
    and "link d = arg_link a"
    and "quality d = or_else (arg_quality a) ''best''"
    and "audio_only d = arg_audio_only a"
    and "filename d = arg_filename a"
    and "cookies d = arg_cookies a"
    and "format d = arg_format a"
    and "custom_progress_hook d = None"
    and "truthy (arg_output_dir a) \<Longrightarrow> output_dir d = Path (the (arg_output_dir a))"
  using assms
  by (auto simp: init_fields_def split: sum.splits if_splits)

lemma init_fields_given:
  assumes "truthy (arg_output_dir a)"
  shows "\<exists>d. init_fields e a = Inr d"
  using assms by (simp add: init_fields_def)

lemma init_fields_cwd:
  assumes "\<not> truthy (arg_output_dir a)"
  shows "(case init_fields e a of Inl ex \<Rightarrow> os_getcwd e = Inl ex | Inr d \<Rightarrow> os_getcwd e = Inr (cwd e))"
  using assms
  by (auto simp: init_fields_def Path_cwd_def os_getcwd_def split: sum.splits option.splits node.splits)

lemma validate_success:
  assumes "validate_inputs e d = (out, Inr ())"
  shows "map_of PLATFORMS (platform d) \<noteq> None"
    and "startswith_any (link d) [''http://'', ''https://'']"
    and "quality d \<in> set QUALITY_OPTIONS"
    and "truthy (cookies d) \<longrightarrow> isfile e (the (cookies d))"
  using assms
  by (auto simp: validate_inputs_def Let_def split: option.splits if_splits)

lemma map_of_PLATFORMS:
  "map_of PLATFORMS p = None \<longleftrightarrow> p \<notin> {''youtube'', ''instagram'', ''twitter'', ''x''}"
  by (simp add: PLATFORMS_def)

lemma supported_platforms:
  "join '', '' (filter (\<lambda>p. p \<noteq> ''x'') (map fst PLATFORMS)) = ''youtube, instagram, twitter''"
  by (simp add: PLATFORMS_def)

lemma py_int_720: "py_int ''720'' = Some 720"
  by (simp add: py_int_def max_str_digits_def strip_def is_space_def digit_val_def)

lemma show_int_720: "show_int 720 = ''720''"
  by (simp add: show_int_def show_nat.simps digit_char_def)

lemma lower_x: "lower ul ''x'' = ''x''"
  by (simp add: lower_def lower_char_def is_ascii_def)

subsection \<open>Before validation\<close>

text \<open>
  What construction does before it validates: it fails at once when no output directory
  is given and the working directory cannot be determined.
\<close>

lemma init_unresolved:
  assumes "\<not> truthy (arg_output_dir a)" and "os_getcwd e = Inl ex"
  shows "VideoDownloader_init e a = ([], e, Inl ex)"
  using assms by (simp add: VideoDownloader_init_def init_fields_def Path_cwd_def)

lemma init_resolved:
  assumes "truthy (arg_output_dir a) \<or> os_getcwd e = Inr l"
  shows "\<exists>d. init_fields e a = Inr d"
proof (cases "truthy (arg_output_dir a)")
  case True
  then show ?thesis
    by (simp add: init_fields_def)
next
  case False
  then have "os_getcwd e = Inr l"
    using assms by simp
  then show ?thesis
    using False by (simp add: init_fields_def Path_cwd_def)
qed

subsection \<open>The scenario configuration\<close>

lemma Path_dot_out: "Path ''./out'' = \<lparr>root = '''', parts = [''out'']\<rparr>"
  by (simp add: Path_def)

lemmas fields_eval =
  init_fields_def scenario_args_def scenario_object_def Path_def normalize_platform_def
  lower_def lower_char_def is_ascii_def

lemmas validate_eval =
  validate_inputs_def scenario_object_def PLATFORMS_def startswith_any_def
  QUALITY_OPTIONS_def lower_def lower_char_def is_ascii_def

lemma scenario_fields: "init_fields e scenario_args = Inr scenario_object"
  by (simp add: fields_eval)


lemma scenario_valid: "validate_inputs e scenario_object = ([], Inr ())"
  by (simp add: validate_eval)

lemma scenario_platform: "normalize_platform e (arg_platform scenario_args) = ''youtube''"
  by (simp add: scenario_args_def normalize_platform_def lower_def lower_char_def is_ascii_def)

lemma mkdir_out_home:
  "mkdir_parents home_env \<lparr>root = '''', parts = [''out'']\<rparr> = (home_out_env, None)"
  by (simp add: mkdir_parents.simps os_mkdir_def home_env_def home_out_env_def start_def
      node_at_def special_def step_def lookup_def path_error_def str_path_def)

lemma scenario_init_home:
  "VideoDownloader_init home_env scenario_args = ([], home_out_env, Inr scenario_object)"
  using scenario_fields scenario_valid
  by (rule init_ok) (simp add: scenario_object_def mkdir_out_home)

lemma scenario_variant_init:
  assumes "init_fields home_env a = Inr d"
    and "validate_inputs home_env d = (out, Inr ())"
    and "output_dir d = \<lparr>root = '''', parts = [''out'']\<rparr>"
  shows "VideoDownloader_init home_env a = (out, home_out_env, Inr d)"
  using assms(1,2) by (rule init_ok) (simp add: assms(3) mkdir_out_home)

lemma title_template:
  "str_path (path_div \<lparr>root = '''', parts = [''out'']\<rparr> ''%(title)s.%(ext)s'')
     = ''out/%(title)s.%(ext)s''"
  by (simp add: str_path_def path_div_def path_join_def Path_def)

lemma home_platform_tiktok:
  "normalize_platform e (arg_platform (scenario_args\<lparr>arg_platform := ''TikTok''\<rparr>)) = ''tiktok''"
  by (simp add: normalize_platform_def lower_def lower_char_def is_ascii_def)

lemma gone_getcwd: "os_getcwd gone_env = Inl (OSError ENOENT)"
  by (simp add: os_getcwd_def gone_env_def home_env_def node_at_def)

lemma home_getcwd: "os_getcwd home_env = Inr [''home'']"
  by (simp add: os_getcwd_def home_env_def node_at_def)

section \<open>Path resolution and directory creation\<close>












lemma walk_append:
  "walk e l (xs @ ys) = (case walk e l xs of Inl er \<Rightarrow> Inl er | Inr t \<Rightarrow> walk e t ys)"
  by (induction xs arbitrary: l) (auto split: option.splits node.splits)

lemma walk_snoc_Inr:
  "walk e l (xs @ [c]) = Inr t \<longleftrightarrow>
     (\<exists>u. walk e l xs = Inr u \<and> node_at (fs e) u = Some Dir \<and> lookup e u c = None
          \<and> t = step u c)"
  by (auto simp: walk_append split: sum.splits option.splits node.splits)

subsection \<open>What a successful creation leaves behind\<close>








subsection \<open>The leading parts of a path that is a directory\<close>






subsection \<open>A directory that exists already\<close>



subsection \<open>What directory creation raises\<close>

lemma os_mkdir_raises:
  assumes "os_mkdir e p = Inl ex"
  shows "(\<exists>c. ex = OSError c) \<or> ex = ValueError ''embedded null byte''"
  using assms
  by (auto simp: os_mkdir_def path_error_def split: if_splits sum.splits option.splits)

lemma mkdir_exist_ok_raises:
  assumes "mkdir_exist_ok e p = Inl ex"
  shows "(\<exists>c. ex = OSError c) \<or> ex = ValueError ''embedded null byte''"
proof (cases "os_mkdir e p")
  case (Inr e')
  then show ?thesis
    using assms by (simp add: mkdir_exist_ok_def)
next
  case (Inl ex')
  then have "(\<exists>c. ex' = OSError c) \<or> ex' = ValueError ''embedded null byte''"
    by (rule os_mkdir_raises)
  then show ?thesis
    using assms Inl by (auto simp: mkdir_exist_ok_def split: if_splits)
qed

lemma mkdir_parents_raises:
  "mkdir_parents e p = (e', Some ex) \<Longrightarrow>
     (\<exists>c. ex = OSError c) \<or> ex = ValueError ''embedded null byte''"
proof (induction "parts p" arbitrary: p e' rule: rev_induct)
  case Nil
  then show ?case
    by (subst (asm) mkdir_parents.simps)
       (auto dest: os_mkdir_raises split: sum.splits exn.splits if_splits)
next
  case (snoc c cs)
  have pp: "cs = parts (parent p)"
    using snoc.hyps(2) [symmetric] by (simp add: parent_def)
  show ?case
  proof (cases "os_mkdir e p")
    case (Inr e1)
    then show ?thesis
      using snoc.prems by (subst (asm) mkdir_parents.simps) simp
  next
    case (Inl ex0)
    show ?thesis
    proof (cases "ex0 = OSError ENOENT \<and> parts p \<noteq> []")
      case False
      then have "ex = ex0"
        using snoc.prems Inl
        by (subst (asm) mkdir_parents.simps) (auto split: exn.splits if_splits)
      then show ?thesis
        using os_mkdir_raises [OF Inl] by simp
    next
      case True
      obtain e1 r1 where par: "mkdir_parents e (parent p) = (e1, r1)"
        by (cases "mkdir_parents e (parent p)")
      show ?thesis
      proof (cases r1)
        case (Some ex1)
        then have "ex = ex1"
          using snoc.prems Inl True par by (subst (asm) mkdir_parents.simps) simp
        then show ?thesis
          using snoc.hyps(1) [OF pp] par Some by simp
      next
        case None
        then have "mkdir_exist_ok e1 p = Inl ex"
          using snoc.prems Inl True par
          by (subst (asm) mkdir_parents.simps) (auto split: sum.splits)
        then show ?thesis
          by (rule mkdir_exist_ok_raises)
      qed
    qed
  qed
qed

section \<open>The end-to-end scenario\<close>

text \<open>
  Claim C1, as the code has it. For platform \<open>youtube\<close>, link
  \<open>https://youtube.com/watch?v=abc\<close>, quality \<open>best\<close>, output directory \<open>./out\<close>,
  video mode and no file name, cookies or format, every successfully constructed
  downloader produces an options dictionary whose format selector is
  \<open>bestvideo+bestaudio/best\<close>, whose output template is \<open>out/%(title)s.%(ext)s\<close>
  (the path object drops the leading \<open>./\<close> of the output directory), and which has no
  post-processor list.
\<close>

theorem scenario_options:
  assumes "VideoDownloader_init e scenario_args = (out, e', Inr d)"
  shows "get_ydl_opts d ''format'' = Some (Str ''bestvideo+bestaudio/best'')
       \<and> get_ydl_opts d ''outtmpl'' = Some (Str ''out/%(title)s.%(ext)s'')
       \<and> get_ydl_opts d ''postprocessors'' = None"
proof -
  have "init_fields e scenario_args = Inr d"
    using assms by (rule init_success)
  then have d: "d = scenario_object"
    by (simp add: scenario_fields)
  show ?thesis
    unfolding d
    by (simp add: get_ydl_opts_def scenario_object_def get_quality_format_selector_def
        get_output_template_def title_template)
qed

theorem scenario_options_witness:
  "VideoDownloader_init home_env scenario_args = ([], home_out_env, Inr scenario_object)
   \<and> get_ydl_opts scenario_object ''format'' = Some (Str ''bestvideo+bestaudio/best'')
   \<and> get_ydl_opts scenario_object ''outtmpl'' = Some (Str ''out/%(title)s.%(ext)s'')
   \<and> get_ydl_opts scenario_object ''postprocessors'' = None"
proof -
  have h: "VideoDownloader_init home_env scenario_args = ([], home_out_env, Inr scenario_object)"
    by (rule scenario_init_home)
  show ?thesis
    using h scenario_options [OF h] by simp
qed

text \<open>
  Claim C1 as written expects the output template \<open>./out/%(title)s.%(ext)s\<close>. In the
  working directory \<open>/home\<close> construction succeeds and the template is a different
  string.
\<close>

theorem scenario_template_counterexample:
  "VideoDownloader_init home_env scenario_args = ([], home_out_env, Inr scenario_object)
   \<and> get_ydl_opts scenario_object ''outtmpl'' \<noteq> Some (Str ''./out/%(title)s.%(ext)s'')"
  by (simp add: scenario_init_home get_ydl_opts_def scenario_object_def
        get_output_template_def title_template)

section \<open>Validation errors\<close>

text \<open>
  Claim C3, as the code has it. When the normalised platform is none of \<open>youtube\<close>,
  \<open>instagram\<close>, \<open>twitter\<close>, \<open>x\<close>, construction prints nothing, leaves the file system
  as it is and raises. When an output directory is given, or the working directory can
  be determined, the exception is \<open>ValueError\<close> with the message
  \<open>Invalid platform '<p>'. Supported platforms: youtube, instagram, twitter\<close>, where
  \<open><p>\<close> is the normalised platform name. Otherwise it is the error of
  \<open>os.getcwd()\<close>, which is raised before validation starts.
\<close>

theorem invalid_platform_rejected:
  assumes "normalize_platform e (arg_platform a) \<notin> {''youtube'', ''instagram'', ''twitter'', ''x''}"
  shows "let err = ValueError (''Invalid platform '' @ [CHR 0x27]
                     @ normalize_platform e (arg_platform a) @ [CHR 0x27]
                     @ ''. Supported platforms: youtube, instagram, twitter'')
         in VideoDownloader_init e a =
              ([], e,
               Inl (if truthy (arg_output_dir a) then err
                    else (case os_getcwd e of Inl ex \<Rightarrow> ex | Inr l \<Rightarrow> err)))"
proof (cases "truthy (arg_output_dir a) \<or> (\<exists>l. os_getcwd e = Inr l)")
  case False
  then obtain ex where "\<not> truthy (arg_output_dir a)" and "os_getcwd e = Inl ex"
    by (cases "os_getcwd e") auto
  then show ?thesis
    by (simp add: init_unresolved)
next
  case True
  then obtain d where d: "init_fields e a = Inr d"
    using init_resolved by blast
  then have "map_of PLATFORMS (platform d) = None"
    using assms by (simp add: map_of_PLATFORMS init_fields_Inr(1))
  then have "VideoDownloader_init e a =
      ([], e, Inl (ValueError (''Invalid platform '' @ [CHR 0x27]
                     @ normalize_platform e (arg_platform a) @ [CHR 0x27]
                     @ ''. Supported platforms: youtube, instagram, twitter'')))"
    using d
    by (simp add: VideoDownloader_init_def validate_inputs_def supported_platforms
        init_fields_Inr(1) [OF d])
  then show ?thesis
    using True by (auto simp: Let_def)
qed

theorem invalid_platform_rejected_witness:
  "normalize_platform home_env (arg_platform (scenario_args\<lparr>arg_platform := ''TikTok''\<rparr>))
      \<notin> {''youtube'', ''instagram'', ''twitter'', ''x''}
   \<and> VideoDownloader_init home_env (scenario_args\<lparr>arg_platform := ''TikTok''\<rparr>) =
       ([], home_env,
        Inl (ValueError (''Invalid platform '' @ [CHR 0x27] @ ''tiktok'' @ [CHR 0x27]
               @ ''. Supported platforms: youtube, instagram, twitter'')))"
proof -
  let ?a = "scenario_args\<lparr>arg_platform := ''TikTok''\<rparr>"
  have h: "normalize_platform home_env (arg_platform ?a)
             \<notin> {''youtube'', ''instagram'', ''twitter'', ''x''}"
    unfolding home_platform_tiktok by simp
  have o: "truthy (arg_output_dir ?a)"
    by (simp add: scenario_args_def)
  show ?thesis
    using h invalid_platform_rejected [OF h] o unfolding home_platform_tiktok Let_def by simp
qed

text \<open>
  Claim C3 as written promises \<open>ValueError\<close> for every unsupported platform. With no
  output directory, in a working directory that has been removed, the constructor
  raises \<open>FileNotFoundError\<close> from \<open>Path.cwd()\<close> before it looks at the platform.
\<close>

theorem invalid_platform_unresolved_counterexample:
  "normalize_platform gone_env
       (arg_platform (scenario_args\<lparr>arg_platform := ''TikTok'', arg_output_dir := None\<rparr>))
      \<notin> {''youtube'', ''instagram'', ''twitter'', ''x''}
   \<and> VideoDownloader_init gone_env
       (scenario_args\<lparr>arg_platform := ''TikTok'', arg_output_dir := None\<rparr>)
       = ([], gone_env, Inl (OSError ENOENT))"
proof -
  let ?a = "scenario_args\<lparr>arg_platform := ''TikTok'', arg_output_dir := None\<rparr>"
  have "normalize_platform gone_env (arg_platform ?a) = ''tiktok''"
    by (simp add: normalize_platform_def lower_def lower_char_def is_ascii_def)
  moreover have "VideoDownloader_init gone_env ?a = ([], gone_env, Inl (OSError ENOENT))"
    by (rule init_unresolved) (simp_all add: gone_getcwd)
  ultimately show ?thesis
    by simp
qed

section \<open>Format selection\<close>

text \<open>
  Claim C2. For a successfully constructed downloader with quality \<open>720\<close> in video
  mode, the format selector is
  \<open>bestvideo[height<=720]+bestaudio/best[height<=720]/best\<close>: its first alternative is
  the best video stream of height at most 720 joined with the best audio stream, and its
  last alternative is \<open>best\<close>, with no height restriction.
\<close>

theorem selector_720:
  assumes "VideoDownloader_init e a = (out, e', Inr d)"
    and "arg_quality a = Some ''720''"
    and "\<not> arg_audio_only a"
  shows "get_quality_format_selector d = ''bestvideo[height<=720]+bestaudio/best[height<=720]/best''
       \<and> get_ydl_opts d ''format'' = Some (Str (get_quality_format_selector d))
       \<and> split_on (CHR ''/'') (get_quality_format_selector d)
           = [''bestvideo[height<=720]+bestaudio'', ''best[height<=720]'', ''best'']"
proof -
  have d: "init_fields e a = Inr d"
    using assms(1) by (rule init_success)
  have q: "quality d = ''720''" and v: "\<not> audio_only d"
    using assms(2,3) by (simp_all add: init_fields_Inr [OF d])
  have sel: "get_quality_format_selector d
               = ''bestvideo[height<=720]+bestaudio/best[height<=720]/best''"
    by (simp add: get_quality_format_selector_def q v py_int_720 show_int_720)
  have opt: "get_ydl_opts d ''format'' = Some (Str (get_quality_format_selector d))"
    by (simp add: get_ydl_opts_def Let_def v)
  show ?thesis
    unfolding sel using opt sel by simp
qed

theorem selector_720_witness:
  "VideoDownloader_init home_env (scenario_args\<lparr>arg_quality := Some ''720''\<rparr>)
     = ([], home_out_env, Inr (scenario_object\<lparr>quality := ''720''\<rparr>))
   \<and> arg_quality (scenario_args\<lparr>arg_quality := Some ''720''\<rparr>) = Some ''720''
   \<and> \<not> arg_audio_only (scenario_args\<lparr>arg_quality := Some ''720''\<rparr>)
   \<and> get_quality_format_selector (scenario_object\<lparr>quality := ''720''\<rparr>)
        = ''bestvideo[height<=720]+bestaudio/best[height<=720]/best''"
proof -
  let ?a = "scenario_args\<lparr>arg_quality := Some ''720''\<rparr>"
  let ?d = "scenario_object\<lparr>quality := ''720''\<rparr>"
  have f: "init_fields home_env ?a = Inr ?d"
    by (simp add: fields_eval)
  have v: "validate_inputs home_env ?d = ([], Inr ())"
    by (simp add: validate_eval)
  have h1: "VideoDownloader_init home_env ?a = ([], home_out_env, Inr ?d)"
    using f v by (rule scenario_variant_init) (simp add: scenario_object_def)
  have h2: "arg_quality ?a = Some ''720''" by simp
  have h3: "\<not> arg_audio_only ?a" by (simp add: scenario_args_def)
  show ?thesis
    using h1 h2 h3 selector_720 [OF h1 h2 h3] by simp
qed

text \<open>
  Claim C10. Two successfully constructed downloaders that are both audio-only have the
  same format selector, \<open>bestaudio/best\<close>, whatever their qualities (and whatever else
  they differ in): the quality has no influence on the selector in audio-only mode.
\<close>

theorem audio_only_selector_ignores_quality:
  assumes "VideoDownloader_init e1 a1 = (out1, e1', Inr d1)"
    and "VideoDownloader_init e2 a2 = (out2, e2', Inr d2)"
    and "arg_audio_only a1" and "arg_audio_only a2"
  shows "get_quality_format_selector d1 = get_quality_format_selector d2
       \<and> get_quality_format_selector d1 = ''bestaudio/best''
       \<and> get_ydl_opts d1 ''format'' = get_ydl_opts d2 ''format''"
proof -
  have d: "init_fields e1 a1 = Inr d1" "init_fields e2 a2 = Inr d2"
    using assms(1,2) by (auto dest: init_success(1))
  have au: "audio_only d1" "audio_only d2"
    using assms(3,4) by (simp_all add: init_fields_Inr(4) [OF d(1)] init_fields_Inr(4) [OF d(2)])
  have sel: "get_quality_format_selector d1 = ''bestaudio/best''"
            "get_quality_format_selector d2 = ''bestaudio/best''"
    using au by (simp_all add: get_quality_format_selector_def)
  have "get_ydl_opts d1 ''format'' = Some (Str (get_quality_format_selector d1))"
       "get_ydl_opts d2 ''format'' = Some (Str (get_quality_format_selector d2))"
    using au by (simp_all add: get_ydl_opts_def Let_def)
  then show ?thesis
    using sel by simp
qed

theorem audio_only_selector_ignores_quality_witness:
  "VideoDownloader_init home_env (scenario_args\<lparr>arg_quality := Some ''360'', arg_audio_only := True\<rparr>)
     = ([], home_out_env, Inr (scenario_object\<lparr>quality := ''360'', audio_only := True\<rparr>))
   \<and> VideoDownloader_init home_env (scenario_args\<lparr>arg_quality := Some ''1080'', arg_audio_only := True\<rparr>)
     = ([], home_out_env, Inr (scenario_object\<lparr>quality := ''1080'', audio_only := True\<rparr>))
   \<and> get_quality_format_selector (scenario_object\<lparr>quality := ''360'', audio_only := True\<rparr>)
      = get_quality_format_selector (scenario_object\<lparr>quality := ''1080'', audio_only := True\<rparr>)"
proof -
  let ?a = "scenario_args\<lparr>arg_quality := Some ''360'', arg_audio_only := True\<rparr>"
  let ?b = "scenario_args\<lparr>arg_quality := Some ''1080'', arg_audio_only := True\<rparr>"
  let ?da = "scenario_object\<lparr>quality := ''360'', audio_only := True\<rparr>"
  let ?db = "scenario_object\<lparr>quality := ''1080'', audio_only := True\<rparr>"
  have fa: "init_fields home_env ?a = Inr ?da" and fb: "init_fields home_env ?b = Inr ?db"
    by (simp_all add: fields_eval)
  have va: "validate_inputs home_env ?da = ([], Inr ())"
    and vb: "validate_inputs home_env ?db = ([], Inr ())"
    by (simp_all add: validate_eval)
  have ha: "VideoDownloader_init home_env ?a = ([], home_out_env, Inr ?da)"
    using fa va by (rule scenario_variant_init) (simp add: scenario_object_def)
  have hb: "VideoDownloader_init home_env ?b = ([], home_out_env, Inr ?db)"
    using fb vb by (rule scenario_variant_init) (simp add: scenario_object_def)
  have au: "arg_audio_only ?a" "arg_audio_only ?b" by simp_all
  show ?thesis
    using ha hb audio_only_selector_ignores_quality [OF ha hb au] by simp
qed

section \<open>Post-processing\<close>

text \<open>
  Claim C4. For a successfully constructed audio-only downloader with no explicit format
  (\<open>None\<close>, or the empty string), the options dictionary holds under \<open>postprocessors\<close>
  a list of exactly one entry: key \<open>FFmpegExtractAudio\<close>, preferred codec \<open>mp3\<close>,
  preferred quality \<open>192\<close>.
\<close>

theorem audio_only_postprocessor:
  assumes "VideoDownloader_init e a = (out, e', Inr d)"
    and "arg_audio_only a"
    and "\<not> truthy (arg_format a)"
  shows "get_ydl_opts d ''postprocessors''
           = Some (Dicts [[(''key'', ''FFmpegExtractAudio''),
                           (''preferredcodec'', ''mp3''),
                           (''preferredquality'', ''192'')]])"
proof -
  have d: "init_fields e a = Inr d"
    using assms(1) by (rule init_success)
  have au: "audio_only d" and f: "or_else (format d) ''mp3'' = ''mp3''"
    using assms(2,3) by (cases "arg_format a"; simp add: init_fields_Inr [OF d])+
  show ?thesis
    by (simp add: get_ydl_opts_def Let_def au f)
qed

theorem audio_only_postprocessor_witness:
  "VideoDownloader_init home_env (scenario_args\<lparr>arg_audio_only := True\<rparr>)
     = ([], home_out_env, Inr (scenario_object\<lparr>audio_only := True\<rparr>))
   \<and> arg_audio_only (scenario_args\<lparr>arg_audio_only := True\<rparr>)
   \<and> \<not> truthy (arg_format (scenario_args\<lparr>arg_audio_only := True\<rparr>))
   \<and> get_ydl_opts (scenario_object\<lparr>audio_only := True\<rparr>) ''postprocessors''
           = Some (Dicts [[(''key'', ''FFmpegExtractAudio''),
                           (''preferredcodec'', ''mp3''),
                           (''preferredquality'', ''192'')]])"
proof -
  let ?a = "scenario_args\<lparr>arg_audio_only := True\<rparr>"
  let ?d = "scenario_object\<lparr>audio_only := True\<rparr>"
  have f: "init_fields home_env ?a = Inr ?d"
    by (simp add: fields_eval)
  have v: "validate_inputs home_env ?d = ([], Inr ())"
    by (simp add: validate_eval)
  have h1: "VideoDownloader_init home_env ?a = ([], home_out_env, Inr ?d)"
    using f v by (rule scenario_variant_init) (simp add: scenario_object_def)
  have h2: "arg_audio_only ?a" by simp
  have h3: "\<not> truthy (arg_format ?a)" by (simp add: scenario_args_def)
  show ?thesis
    using h1 h2 h3 audio_only_postprocessor [OF h1 h2 h3] by simp
qed

section \<open>Platform alias and URL scheme\<close>

text \<open>
  Claim C6. With platform \<open>x\<close>, a link that starts with \<open>http://\<close> or \<open>https://\<close> and a
  quality of the fixed set (or none, which means \<open>best\<close>), the normalised platform is
  \<open>twitter\<close>: the object under construction holds it as soon as its fields are
  assigned, every successfully constructed object holds it, and construction can only
  fail on the working directory, on the cookie file or on creating the output
  directory, never on platform, link or quality.
\<close>

theorem platform_x_is_twitter:
  assumes "arg_platform a = ''x''"
    and "prefix ''http://'' (arg_link a) \<or> prefix ''https://'' (arg_link a)"
    and "or_else (arg_quality a) ''best'' \<in> set QUALITY_OPTIONS"
  shows "normalize_platform e (arg_platform a) = ''twitter''
       \<and> (case init_fields e a of
            Inr d \<Rightarrow> platform d = ''twitter''
          | Inl ex \<Rightarrow> os_getcwd e = Inl ex \<and> (\<exists>c. ex = OSError c))
       \<and> (case snd (snd (VideoDownloader_init e a)) of
            Inr d \<Rightarrow> platform d = ''twitter''
          | Inl ex \<Rightarrow> ex = FileNotFoundError (''Cookies file not found: '' @ the (arg_cookies a))
                      \<or> (\<exists>c. ex = OSError c)
                      \<or> ex = ValueError ''embedded null byte'')"
proof -
  have n: "normalize_platform e (arg_platform a) = ''twitter''"
    using assms(1) by (simp add: normalize_platform_def lower_x)
  have g: "os_getcwd e = Inl ex \<Longrightarrow> \<exists>c. ex = OSError c" for ex
    by (auto simp: os_getcwd_def split: option.splits node.splits)
  have f: "case init_fields e a of
             Inr d \<Rightarrow> platform d = ''twitter''
           | Inl ex \<Rightarrow> os_getcwd e = Inl ex \<and> (\<exists>c. ex = OSError c)"
  proof (cases "init_fields e a")
    case (Inr d)
    then show ?thesis
      using n by (simp add: init_fields_Inr(1) [OF Inr])
  next
    case (Inl ex)
    then have "os_getcwd e = Inl ex"
      by (auto simp: init_fields_def Path_cwd_def split: if_splits sum.splits)
    then show ?thesis
      using Inl g by simp
  qed
  have i: "case snd (snd (VideoDownloader_init e a)) of
             Inr d \<Rightarrow> platform d = ''twitter''
           | Inl ex \<Rightarrow> ex = FileNotFoundError (''Cookies file not found: '' @ the (arg_cookies a))
                       \<or> (\<exists>c. ex = OSError c)
                       \<or> ex = ValueError ''embedded null byte''"
  proof (cases "init_fields e a")
    case (Inl ex)
    then show ?thesis
      using f by (auto simp: VideoDownloader_init_def)
  next
    case (Inr d)
    have p: "platform d = ''twitter''"
      using n by (simp add: init_fields_Inr(1) [OF Inr])
    have l: "startswith_any (link d) [''http://'', ''https://'']"
      using assms(2) by (auto simp: startswith_any_def init_fields_Inr(2) [OF Inr])
    have q: "quality d \<in> set QUALITY_OPTIONS"
      using assms(3) by (simp add: init_fields_Inr(3) [OF Inr])
    have c: "cookies d = arg_cookies a"
      by (rule init_fields_Inr(6) [OF Inr])
    have m: "map_of PLATFORMS ''twitter'' = Some [''twitter.com'', ''x.com'']"
      by (simp add: PLATFORMS_def)
    obtain e' r where mk: "mkdir_parents e (output_dir d) = (e', r)"
      by (cases "mkdir_parents e (output_dir d)")
    have r: "r = Some ex \<Longrightarrow> (\<exists>c. ex = OSError c) \<or> ex = ValueError ''embedded null byte''" for ex
      using mk mkdir_parents_raises by blast
    show ?thesis
      using p l q r
      by (auto simp: VideoDownloader_init_def Inr validate_inputs_def Let_def m c mk
          split: option.splits)
  qed
  show ?thesis
    using n f i by simp
qed

theorem platform_x_is_twitter_witness:
  "arg_platform (scenario_args\<lparr>arg_platform := ''x'', arg_link := ''https://x.com/u/status/1''\<rparr>) = ''x''
   \<and> prefix ''https://'' (arg_link (scenario_args\<lparr>arg_platform := ''x'', arg_link := ''https://x.com/u/status/1''\<rparr>))
   \<and> or_else (arg_quality (scenario_args\<lparr>arg_platform := ''x'', arg_link := ''https://x.com/u/status/1''\<rparr>)) ''best''
        \<in> set QUALITY_OPTIONS
   \<and> VideoDownloader_init home_env (scenario_args\<lparr>arg_platform := ''x'', arg_link := ''https://x.com/u/status/1''\<rparr>)
       = ([], home_out_env,
          Inr (scenario_object\<lparr>platform := ''twitter'', link := ''https://x.com/u/status/1''\<rparr>))
   \<and> normalize_platform home_env ''x'' = ''twitter''"
proof -
  let ?a = "scenario_args\<lparr>arg_platform := ''x'', arg_link := ''https://x.com/u/status/1''\<rparr>"
  let ?d = "scenario_object\<lparr>platform := ''twitter'', link := ''https://x.com/u/status/1''\<rparr>"
  have h1: "arg_platform ?a = ''x''" by simp
  have h2': "prefix ''https://'' (arg_link ?a)" by simp
  then have h2: "prefix ''http://'' (arg_link ?a) \<or> prefix ''https://'' (arg_link ?a)" ..
  have h3: "or_else (arg_quality ?a) ''best'' \<in> set QUALITY_OPTIONS"
    by (simp add: scenario_args_def QUALITY_OPTIONS_def)
  have f: "init_fields home_env ?a = Inr ?d"
    by (simp add: fields_eval)
  have v: "validate_inputs home_env ?d = ([], Inr ())"
    by (simp add: validate_eval)
  have h4: "VideoDownloader_init home_env ?a = ([], home_out_env, Inr ?d)"
    using f v by (rule scenario_variant_init) (simp add: scenario_object_def)
  show ?thesis
    using h1 h2' h3 h4 platform_x_is_twitter [OF h1 h2 h3, of home_env] by simp
qed

text \<open>
  Claim C7, as the code has it. When the link starts with neither \<open>http://\<close> nor
  \<open>https://\<close>, construction prints nothing, leaves the file system as it is and raises.
  When an output directory is given, or the working directory can be determined, the
  exception is \<open>ValueError\<close>: the invalid-platform error when the platform is not
  recognised (that check comes first), and \<open>Invalid URL format: <link>\<close> otherwise.
  Otherwise it is the error of \<open>os.getcwd()\<close>, which is raised before validation
  starts.
\<close>

theorem bad_scheme_rejected:
  assumes "\<not> prefix ''http://'' (arg_link a)"
    and "\<not> prefix ''https://'' (arg_link a)"
  shows "let err = ValueError
                     (if normalize_platform e (arg_platform a)
                           \<in> {''youtube'', ''instagram'', ''twitter'', ''x''}
                      then ''Invalid URL format: '' @ arg_link a
                      else ''Invalid platform '' @ [CHR 0x27]
                             @ normalize_platform e (arg_platform a) @ [CHR 0x27]
                             @ ''. Supported platforms: youtube, instagram, twitter'')
         in VideoDownloader_init e a =
              ([], e,
               Inl (if truthy (arg_output_dir a) then err
                    else (case os_getcwd e of Inl ex \<Rightarrow> ex | Inr l \<Rightarrow> err)))"
proof (cases "truthy (arg_output_dir a) \<or> (\<exists>l. os_getcwd e = Inr l)")
  case False
  then obtain ex where "\<not> truthy (arg_output_dir a)" and "os_getcwd e = Inl ex"
    by (cases "os_getcwd e") auto
  then show ?thesis
    by (simp add: init_unresolved)
next
  case True
  then obtain d where d: "init_fields e a = Inr d"
    using init_resolved by blast
  have l: "\<not> startswith_any (link d) [''http://'', ''https://'']"
    using assms by (simp add: startswith_any_def init_fields_Inr(2) [OF d])
  have p: "platform d = normalize_platform e (arg_platform a)"
    and k: "link d = arg_link a"
    by (simp_all add: init_fields_Inr [OF d])
  have "VideoDownloader_init e a =
          ([], e, Inl (ValueError
             (if normalize_platform e (arg_platform a)
                   \<in> {''youtube'', ''instagram'', ''twitter'', ''x''}
              then ''Invalid URL format: '' @ arg_link a
              else ''Invalid platform '' @ [CHR 0x27]
                     @ normalize_platform e (arg_platform a) @ [CHR 0x27]
                     @ ''. Supported platforms: youtube, instagram, twitter'')))"
  proof (cases "map_of PLATFORMS (normalize_platform e (arg_platform a))")
    case None
    then show ?thesis
      using map_of_PLATFORMS [of "normalize_platform e (arg_platform a)"]
      by (simp add: VideoDownloader_init_def d validate_inputs_def supported_platforms p)
  next
    case (Some ds)
    then have "normalize_platform e (arg_platform a)
                 \<in> {''youtube'', ''instagram'', ''twitter'', ''x''}"
      using map_of_PLATFORMS [of "normalize_platform e (arg_platform a)"] by simp
    then show ?thesis
      using Some l by (simp add: VideoDownloader_init_def d validate_inputs_def p k)
  qed
  then show ?thesis
    using True by (auto simp: Let_def)
qed

theorem bad_scheme_rejected_witness:
  "\<not> prefix ''http://'' (arg_link (scenario_args\<lparr>arg_link := ''ftp://youtube.com/watch?v=abc''\<rparr>))
   \<and> \<not> prefix ''https://'' (arg_link (scenario_args\<lparr>arg_link := ''ftp://youtube.com/watch?v=abc''\<rparr>))
   \<and> VideoDownloader_init home_env (scenario_args\<lparr>arg_link := ''ftp://youtube.com/watch?v=abc''\<rparr>)
       = ([], home_env, Inl (ValueError ''Invalid URL format: ftp://youtube.com/watch?v=abc''))"
proof -
  let ?a = "scenario_args\<lparr>arg_link := ''ftp://youtube.com/watch?v=abc''\<rparr>"
  have h1: "\<not> prefix ''http://'' (arg_link ?a)" by simp
  have h2: "\<not> prefix ''https://'' (arg_link ?a)" by simp
  have n: "normalize_platform home_env (arg_platform ?a) = ''youtube''"
    by (simp add: scenario_platform)
  have o: "truthy (arg_output_dir ?a)"
    by (simp add: scenario_args_def)
  show ?thesis
    using h1 h2 o bad_scheme_rejected [OF h1 h2, of home_env] unfolding n Let_def by simp
qed

text \<open>
  Claim C7 as written promises a validation error for every such link. With no output
  directory, in a working directory that has been removed, the constructor raises
  \<open>FileNotFoundError\<close> from \<open>Path.cwd()\<close> before it looks at the link.
\<close>

theorem bad_scheme_unresolved_counterexample:
  "\<not> prefix ''http://'' (arg_link
        (scenario_args\<lparr>arg_link := ''ftp://youtube.com/watch?v=abc'', arg_output_dir := None\<rparr>))
   \<and> \<not> prefix ''https://'' (arg_link
        (scenario_args\<lparr>arg_link := ''ftp://youtube.com/watch?v=abc'', arg_output_dir := None\<rparr>))
   \<and> VideoDownloader_init gone_env
        (scenario_args\<lparr>arg_link := ''ftp://youtube.com/watch?v=abc'', arg_output_dir := None\<rparr>)
       = ([], gone_env, Inl (OSError ENOENT))"
proof -
  let ?a = "scenario_args\<lparr>arg_link := ''ftp://youtube.com/watch?v=abc'', arg_output_dir := None\<rparr>"
  have "VideoDownloader_init gone_env ?a = ([], gone_env, Inl (OSError ENOENT))"
    by (rule init_unresolved) (simp_all add: gone_getcwd)
  then show ?thesis
    by simp
qed

section \<open>The final file path\<close>

lemma suffix_join_last: "suffix x (join sep (xs @ [x]))"
proof (induction xs rule: induct_list012)
  case 1
  show ?case by simp
next
  case (2 y)
  show ?case by (simp add: suffix_def)
next
  case (3 y z zs)
  have "join sep ((y # z # zs) @ [x]) = y @ sep @ join sep ((z # zs) @ [x])"
    by simp
  then show ?case
    using "3.IH"(2) by (simp add: suffix_appendI del: join.simps)
qed

lemma splitext_clip: "splitext ''clip'' = (''clip'', [])"
  by (simp add: splitext_def Let_def)

lemma Path_clip_webm: "Path ''clip.webm'' = \<lparr>root = '''', parts = [''clip.webm'']\<rparr>"
  by (simp add: Path_def)

lemma absolute_cases:
  "absolute e p =
     (if root p \<noteq> '''' then Inr p
      else (case os_getcwd e of
              Inl ex \<Rightarrow> Inl ex
            | Inr l \<Rightarrow> Inr \<lparr>root = ''/'', parts = l @ parts p\<rparr>))"
  by (simp add: absolute_def Path_cwd_def path_join_def split: sum.splits)

lemma str_path_ends:
  assumes "absolute e \<lparr>root = r, parts = ps @ [x]\<rparr> = Inr q"
  shows "suffix x (str_path q)"
proof (cases "r = []")
  case False
  then have "q = \<lparr>root = r, parts = ps @ [x]\<rparr>"
    using assms by (simp add: absolute_cases)
  then have "str_path q = r @ join ''/'' (ps @ [x])"
    by (simp add: str_path_def)
  then show ?thesis
    by (simp add: suffix_appendI suffix_join_last)
next
  case True
  then obtain l where "q = \<lparr>root = ''/'', parts = (l @ ps) @ [x]\<rparr>"
    using assms by (auto simp: absolute_cases split: sum.splits)
  then have "str_path q = ''/'' @ join ''/'' ((l @ ps) @ [x])"
    by (simp add: str_path_def)
  then show ?thesis
    using suffix_appendI [OF suffix_join_last, of x "''/''" "''/''" "l @ ps"] by simp
qed

text \<open>
  Claim C5. For a successfully constructed downloader with file name \<open>clip\<close>, format
  \<open>webm\<close> and video mode, a download that succeeds in the library computes its final
  path from the output directory and \<open>clip.webm\<close> alone: whatever metadata (and so
  whatever extension) and predicted file name the library reports, the path that is
  computed and returned ends in \<open>clip.webm\<close>. A path is computed unless the output
  directory is relative and the working directory cannot be determined at that time;
  \<open>download\<close> then raises the error of \<open>os.getcwd()\<close>.
\<close>

theorem final_path_clip_webm:
  assumes "VideoDownloader_init e a = (out, e', Inr d)"
    and "arg_filename a = Some ''clip''"
    and "arg_format a = Some ''webm''"
    and "\<not> arg_audio_only a"
  shows "download e2 d quiet (Downloaded info prepared)
           = (case final_path e2 d info prepared of
                Inr p \<Rightarrow> Return (str_path p)
              | Inl ex \<Rightarrow> Raise ex)
       \<and> (case final_path e2 d info prepared of
            Inr p \<Rightarrow> suffix ''clip.webm'' (str_path p)
          | Inl ex \<Rightarrow> root (output_dir d) = '''' \<and> os_getcwd e2 = Inl ex)"
proof -
  have d: "init_fields e a = Inr d"
    using assms(1) by (rule init_success)
  have f: "filename d = Some ''clip''" "format d = Some ''webm''" "\<not> audio_only d"
    using assms(2-4) by (simp_all add: init_fields_Inr [OF d])
  let ?p = "\<lparr>root = root (output_dir d), parts = parts (output_dir d) @ [''clip.webm'']\<rparr>"
  have fp: "final_path e2 d info prepared = absolute e2 ?p"
    by (simp add: final_path_def f splitext_clip path_div_def path_join_def Path_clip_webm)
  have an: "announce e2 d quiet =
              (if quiet then None
               else (case absolute e2 ?p of Inl ex \<Rightarrow> Some ex | Inr q \<Rightarrow> None))"
    by (simp add: announce_def absolute_cases split: sum.splits)
  show ?thesis
  proof (cases "absolute e2 ?p")
    case (Inr q)
    then have "suffix ''clip.webm'' (str_path q)"
      by (rule str_path_ends)
    then show ?thesis
      using Inr by (simp add: download_def attempt_def an fp)
  next
    case (Inl ex)
    then have "root (output_dir d) = '''' \<and> os_getcwd e2 = Inl ex"
      by (auto simp: absolute_cases split: if_splits sum.splits)
    then show ?thesis
      using Inl by (simp add: download_def attempt_def unexpected_def an fp)
  qed
qed

theorem final_path_clip_webm_witness:
  "VideoDownloader_init home_env
       (scenario_args\<lparr>arg_filename := Some ''clip'', arg_format := Some ''webm''\<rparr>)
     = ([], home_out_env,
        Inr (scenario_object\<lparr>filename := Some ''clip'', format := Some ''webm''\<rparr>))
   \<and> \<not> arg_audio_only (scenario_args\<lparr>arg_filename := Some ''clip'', arg_format := Some ''webm''\<rparr>)
   \<and> download home_env (scenario_object\<lparr>filename := Some ''clip'', format := Some ''webm''\<rparr>)
        False (Downloaded [''ext'' \<mapsto> ''mp4''] ''out/Some title.mp4'')
       = Return ''/home/out/clip.webm''
   \<and> suffix ''clip.webm'' ''/home/out/clip.webm''"
proof -
  let ?a = "scenario_args\<lparr>arg_filename := Some ''clip'', arg_format := Some ''webm''\<rparr>"
  let ?d = "scenario_object\<lparr>filename := Some ''clip'', format := Some ''webm''\<rparr>"
  have fi: "init_fields home_env ?a = Inr ?d"
    by (simp add: fields_eval)
  have v: "validate_inputs home_env ?d = ([], Inr ())"
    by (simp add: validate_eval)
  have h1: "VideoDownloader_init home_env ?a = ([], home_out_env, Inr ?d)"
    using fi v by (rule scenario_variant_init) (simp add: scenario_object_def)
  have h2: "arg_filename ?a = Some ''clip''" and h3: "arg_format ?a = Some ''webm''"
    by simp_all
  have h4: "\<not> arg_audio_only ?a"
    by (simp add: scenario_args_def)
  have p: "final_path home_env ?d [''ext'' \<mapsto> ''mp4''] ''out/Some title.mp4''
             = Inr \<lparr>root = ''/'', parts = [''home'', ''out'', ''clip.webm'']\<rparr>"
    by (simp add: final_path_def scenario_object_def splitext_clip path_div_def
        path_join_def Path_clip_webm absolute_cases home_getcwd)
  have s: "str_path \<lparr>root = ''/'', parts = [''home'', ''out'', ''clip.webm'']\<rparr>
             = ''/home/out/clip.webm''"
    by (simp add: str_path_def)
  show ?thesis
    using h1 h4
      final_path_clip_webm [OF h1 h2 h3 h4, of home_env False "[''ext'' \<mapsto> ''mp4'']" "''out/Some title.mp4''"]
    unfolding p by (simp add: s)
qed

section \<open>Construction and the output directory\<close>

lemmas mkdir_eval =
  os_mkdir_def mkdir_exist_ok_def parent_def path_error_def str_path_def lookup_def
  is_dir_def stat_def start_def node_at_def special_def step_def home_env_def



lemma home_newdir_notes:
  "mkdir_parents home_env \<lparr>root = '''', parts = [''newdir'', ''..'', ''notes.txt'']\<rparr>
     = (home_env\<lparr> fs := (fs home_env)([''home'', ''newdir''] \<mapsto> Dir) \<rparr>,
        Some (OSError EEXIST))"
  by (simp add: mkdir_parents.simps [of _ "\<lparr>root = '''', parts = [''newdir'', ''..'', ''notes.txt'']\<rparr>"]
      mkdir_parents.simps [of _ "\<lparr>root = '''', parts = [''newdir'', ''..'']\<rparr>"]
      mkdir_parents.simps [of _ "\<lparr>root = '''', parts = [''newdir'']\<rparr>"]
      mkdir_eval)








text \<open>
  Directories made on the way stay when the creation raises in the end: with the output
  directory \<open>newdir/../notes.txt\<close> construction makes \<open>newdir\<close> and then raises
  \<open>FileExistsError\<close>.
\<close>

lemma directories_stay_when_creation_raises:
  "VideoDownloader_init home_env (scenario_args\<lparr>arg_output_dir := Some ''newdir/../notes.txt''\<rparr>)
     = ([], home_env\<lparr> fs := (fs home_env)([''home'', ''newdir''] \<mapsto> Dir) \<rparr>,
        Inl (OSError EEXIST))"
proof -
  let ?a = "scenario_args\<lparr>arg_output_dir := Some ''newdir/../notes.txt''\<rparr>"
  let ?d = "scenario_object\<lparr>output_dir := \<lparr>root = '''', parts = [''newdir'', ''..'', ''notes.txt'']\<rparr>\<rparr>"
  have f: "init_fields home_env ?a = Inr ?d"
    by (simp add: fields_eval)
  have v: "validate_inputs home_env ?d = ([], Inr ())"
    by (simp add: validate_eval)
  show ?thesis
    using f v by (simp add: VideoDownloader_init_def home_newdir_notes)
qed

end
